theory Spec2Isabelle
  imports Main "HOL-Library.Product_Lexorder"
begin

section \<open>Data model of app.py\<close>

text \<open>
  Strings are lists of code points below 256.  A \<open>datetime\<close> is the number of
  microseconds since \<open>datetime.min\<close> (the resolution of Python's datetime), so the
  float \<open>(a - b).total_seconds()\<close> lies strictly between 0 and 300 exactly when the
  integer difference lies strictly between 0 and 300000000.
\<close>

type_synonym datetime = int

definition datetime_max :: datetime where
  "datetime_max = 315537897599999999"

text \<open>
  The three \<open>db.Model\<close> classes.  A primary key is \<open>None\<close> on an object that has been
  constructed but not inserted yet, as in SQLAlchemy.  Column defaults (\<open>position = 0\<close>,
  \<open>complete = False\<close>, ...) are filled in where the object is constructed.
\<close>

record user =
  u_id :: "int option"
  u_name :: string
  u_email :: string
  u_password :: string

record column =
  c_id :: "int option"
  c_name :: string
  c_position :: int
  c_user_id :: int

record task =
  t_id :: "int option"
  t_title :: string
  t_description :: "string option"
  t_due_date :: "datetime option"
  t_priority :: string
  t_complete :: bool
  t_reminder_set :: bool
  t_created_at :: datetime
  t_status :: string
  t_user_id :: int
  t_column_id :: "int option"

text \<open>Objects handed to \<open>db.session.add\<close> and waiting for a commit.\<close>

datatype db_object = PColumn column | PTask task

text \<open>
  The state a request handler or the reminder thread works on: the three committed
  tables, the objects added to \<open>db.session\<close> and not committed, the Flask session
  (\<open>user_id\<close> and \<open>dark_mode\<close>, \<open>None\<close> when the key is absent) and the flashed
  messages with their categories.
\<close>

record state =
  db_users :: "user list"
  db_columns :: "column list"
  db_tasks :: "task list"
  db_session :: "db_object list"
  session_user_id :: "int option"
  session_dark_mode :: "bool option"
  flashes :: "(string \<times> string) list"

text \<open>
  The request: form fields, query arguments, the referrer header, and the readings of
  \<open>datetime.now()\<close> and \<open>datetime.utcnow()\<close> while the request is handled.
\<close>

record request =
  form :: "string \<rightharpoonup> string"
  args :: "string \<rightharpoonup> string"
  referrer :: "string option"
  clock :: datetime
  utc_clock :: datetime

record stats =
  stat_total :: nat
  stat_pending :: nat
  stat_completed :: nat
  stat_overdue :: nat

text \<open>What \<open>render_template\<close> receives.\<close>

record page =
  pg_template :: string
  pg_user :: user
  pg_tasks :: "task list"
  pg_columns :: "(column \<times> task list) list"
  pg_stats :: stats
  pg_sort_by :: string
  pg_dark_mode :: bool

datatype exn = NameError | AttributeError | KeyError | StatementError

datatype response =
    Redirect string
  | Json bool "string option" nat
  | Render page
  | Abort nat
  | Raise exn

fun is_json :: "response \<Rightarrow> bool" where
  "is_json (Json ok err code) = True"
| "is_json r = False"

fun is_redirect :: "response \<Rightarrow> bool" where
  "is_redirect (Redirect target) = True"
| "is_redirect r = False"

section \<open>Library behaviour the handlers rely on\<close>

definition url_for :: "string \<Rightarrow> string" where
  "url_for endpoint =
     (if endpoint = ''index'' then ''/''
      else if endpoint = ''login'' then ''/login''
      else if endpoint = ''workflow'' then ''/workflow''
      else ''/'' @ endpoint)"

definition flash :: "string \<Rightarrow> string \<Rightarrow> state \<Rightarrow> state" where
  "flash msg category st = st\<lparr>flashes := flashes st @ [(msg, category)]\<rparr>"

text \<open>\<open>v or d\<close> on an optional string: the default replaces a missing or empty value.\<close>

definition py_or :: "string option \<Rightarrow> string \<Rightarrow> string" where
  "py_or v d = (case v of None \<Rightarrow> d | Some s \<Rightarrow> if s = [] then d else s)"

definition referrer_or_index :: "request \<Rightarrow> string" where
  "referrer_or_index req = py_or (referrer req) (url_for ''index'')"

text \<open>\<open>str.isspace\<close> on the code points below 256, and \<open>str.strip()\<close>.\<close>

definition is_space :: "char \<Rightarrow> bool" where
  "is_space c =
     (let n = of_char c :: nat
      in (9 \<le> n \<and> n \<le> 13) \<or> (28 \<le> n \<and> n \<le> 32) \<or> n = 133 \<or> n = 160)"

definition strip :: "string \<Rightarrow> string" where
  "strip s = rev (dropWhile is_space (rev (dropWhile is_space s)))"

text \<open>\<open>str.lower()\<close> on the code points below 256.\<close>

definition lower_char :: "char \<Rightarrow> char" where
  "lower_char c =
     (let n = of_char c :: nat
      in if (65 \<le> n \<and> n \<le> 90) \<or> (192 \<le> n \<and> n \<le> 222 \<and> n \<noteq> 215)
         then char_of (n + 32) else c)"

definition lower :: "string \<Rightarrow> string" where
  "lower s = map lower_char s"

subsection \<open>The database session\<close>

text \<open>
  SQLite gives a new row the largest key of its table plus one.  \<open>commit\<close> inserts the
  objects added to the session, in order, and empties the session.  A handler that
  returns without committing leaves its added objects in \<open>db_session\<close>; they never
  reach a table.
\<close>

definition next_id :: "int option list \<Rightarrow> int" where
  "next_id ids = fold (\<lambda>i m. case i of None \<Rightarrow> m | Some k \<Rightarrow> max k m) ids 0 + 1"

definition session_add :: "db_object \<Rightarrow> state \<Rightarrow> state" where
  "session_add obj st = st\<lparr>db_session := db_session st @ [obj]\<rparr>"

fun insert_object :: "state \<Rightarrow> db_object \<Rightarrow> state" where
  "insert_object st (PColumn c) =
     st\<lparr>db_columns := db_columns st @ [c\<lparr>c_id := Some (next_id (map c_id (db_columns st)))\<rparr>]\<rparr>"
| "insert_object st (PTask t) =
     st\<lparr>db_tasks := db_tasks st @ [t\<lparr>t_id := Some (next_id (map t_id (db_tasks st)))\<rparr>]\<rparr>"

definition commit :: "state \<Rightarrow> state" where
  "commit st = (foldl insert_object st (db_session st))\<lparr>db_session := []\<rparr>"

text \<open>\<open>Model.query.get(id)\<close> and the write of a changed row at commit.\<close>

definition get_user :: "state \<Rightarrow> int \<Rightarrow> user option" where
  "get_user st i = find (\<lambda>u. u_id u = Some i) (db_users st)"

definition get_column :: "state \<Rightarrow> int \<Rightarrow> column option" where
  "get_column st i = find (\<lambda>c. c_id c = Some i) (db_columns st)"

definition get_task :: "state \<Rightarrow> int \<Rightarrow> task option" where
  "get_task st i = find (\<lambda>t. t_id t = Some i) (db_tasks st)"

definition put_task :: "task \<Rightarrow> task list \<Rightarrow> task list" where
  "put_task t ts = map (\<lambda>x. if t_id x = t_id t then t else x) ts"

definition update_task :: "task \<Rightarrow> state \<Rightarrow> state" where
  "update_task t st = st\<lparr>db_tasks := put_task t (db_tasks st)\<rparr>"

text \<open>\<open>Column.query.filter_by(user_id=...).order_by(Column.position).all()\<close>.\<close>

definition user_columns :: "state \<Rightarrow> int \<Rightarrow> column list" where
  "user_columns st uid = sort_key c_position (filter (\<lambda>c. c_user_id c = uid) (db_columns st))"

definition user_tasks :: "state \<Rightarrow> int \<Rightarrow> task list" where
  "user_tasks st uid = filter (\<lambda>t. t_user_id t = uid) (db_tasks st)"

text \<open>\<open>ORDER BY due_date ASC\<close>: SQLite puts NULL first.\<close>

definition due_key_sql :: "task \<Rightarrow> int \<times> int" where
  "due_key_sql t = (case t_due_date t of None \<Rightarrow> (0, 0) | Some d \<Rightarrow> (1, d))"

section \<open>Helpers\<close>

definition defaults :: "string list" where
  "defaults = [''To Do'', ''In Progress'', ''Done'']"

definition ensure_default_columns :: "int \<Rightarrow> state \<Rightarrow> state" where
  "ensure_default_columns uid st =
     (let cols = user_columns st uid
      in if cols = [] then
           commit (foldl (\<lambda>s (i, name).
                      session_add (PColumn \<lparr>c_id = None, c_name = name,
                                            c_position = int i, c_user_id = uid\<rparr>) s)
                    st (enumerate 0 defaults))
         else st)"

definition is_overdue :: "datetime \<Rightarrow> task \<Rightarrow> bool" where
  "is_overdue now t =
     ((case t_due_date t of None \<Rightarrow> False | Some d \<Rightarrow> d < now) \<and> \<not> t_complete t)"

definition calculate_stats :: "datetime \<Rightarrow> task list \<Rightarrow> stats" where
  "calculate_stats now tasks =
     \<lparr>stat_total = length tasks,
      stat_pending = length (filter (\<lambda>t. \<not> t_complete t) tasks),
      stat_completed = length (filter (\<lambda>t. t_complete t) tasks),
      stat_overdue = length (filter (is_overdue now) tasks)\<rparr>"

definition login_required ::
  "(state \<Rightarrow> state \<times> response) \<Rightarrow> state \<Rightarrow> state \<times> response" where
  "login_required f st =
     (if session_user_id st = None
      then (flash ''Please login first!'' ''warning'' st, Redirect (url_for ''login''))
      else f st)"

section \<open>Reminder worker\<close>

text \<open>
  The configuration read from the environment and the library calls whose code is not
  part of app.py: whether \<open>mail.send\<close> delivers (\<open>False\<close>: it raises), \<open>strftime\<close>
  and \<open>strptime\<close> with the formats app.py passes, and \<open>int()\<close> on a string
  (\<open>None\<close>: it raises).
\<close>

record message =
  msg_subject :: string
  msg_sender :: string
  msg_recipients :: "string list"
  msg_body :: string

record env =
  mail_username :: "string option"
  mail_password :: "string option"
  mail_send_ok :: "message \<Rightarrow> bool"
  strftime :: "datetime \<Rightarrow> string"
  strptime :: "string \<Rightarrow> datetime option"
  py_int :: "string \<Rightarrow> int option"

text \<open>
  What one pass over a task did with the mail transport: \<open>Sent\<close> and \<open>SendError\<close> are
  calls of \<open>mail.send\<close> (the second one raised and the error was printed);
  \<open>BuildError\<close> is an exception raised while the message was put together, before any
  call.  The log pairs each event with the key of the task.
\<close>

datatype mail_event = Sent message | SendError message | BuildError

type_synonym mail_log = "(int option \<times> mail_event) list"

fun is_attempt :: "mail_event \<Rightarrow> bool" where
  "is_attempt (Sent m) = True"
| "is_attempt (SendError m) = True"
| "is_attempt BuildError = False"

definition attempts_for :: "int option \<Rightarrow> mail_log \<Rightarrow> mail_log" where
  "attempts_for i log = filter (\<lambda>e. fst e = i \<and> is_attempt (snd e)) log"

definition truthy :: "string option \<Rightarrow> bool" where
  "truthy v = (case v of None \<Rightarrow> False | Some s \<Rightarrow> s \<noteq> [])"

definition reminder_body :: "env \<Rightarrow> task \<Rightarrow> datetime \<Rightarrow> string" where
  "reminder_body env t due =
     ''Reminder: '' @ t_title t @ [CHR 0x0A] @ ''Due at '' @ strftime env due
       @ [CHR 0x0A, CHR 0x0A] @ py_or (t_description t) []"

text \<open>The \<open>try\<close> block of the worker, for a task whose due date is \<open>due\<close>.\<close>

definition send_reminder :: "env \<Rightarrow> user list \<Rightarrow> task \<Rightarrow> datetime \<Rightarrow> mail_event list" where
  "send_reminder env users t due =
     (if truthy (mail_username env) \<and> truthy (mail_password env) then
        (case find (\<lambda>u. u_id u = Some (t_user_id t)) users of
           None \<Rightarrow> [BuildError]
         | Some u \<Rightarrow>
             let msg = \<lparr>msg_subject = ''Task Reminder'',
                        msg_sender = py_or (mail_username env) [],
                        msg_recipients = [u_email u],
                        msg_body = reminder_body env t due\<rparr>
             in if mail_send_ok env msg then [Sent msg] else [SendError msg])
      else [])"

text \<open>The body of \<open>for t in tasks\<close>.\<close>

definition remind_step :: "env \<Rightarrow> datetime \<Rightarrow> state \<times> mail_log \<Rightarrow> task \<Rightarrow> state \<times> mail_log" where
  "remind_step env now acc t =
     (case acc of (st, log) \<Rightarrow>
        (case t_due_date t of
           None \<Rightarrow> (st, log)
         | Some due \<Rightarrow>
             let seconds_left = due - now
             in if 0 < seconds_left \<and> seconds_left < 300000000 then
                  (commit (update_task (t\<lparr>t_reminder_set := False\<rparr>) st),
                   log @ map (Pair (t_id t)) (send_reminder env (db_users st) t due))
                else (st, log)))"

text \<open>
  \<open>with app.app_context()\<close> and the handling of a request both run their body on a
  database session of their own, empty at the start and dropped at the end with
  whatever it still holds.
\<close>

definition app_context :: "(state \<Rightarrow> state \<times> 'a) \<Rightarrow> state \<Rightarrow> state \<times> 'a" where
  "app_context f st =
     (case f (st\<lparr>db_session := []\<rparr>) of (st', r) \<Rightarrow> (st'\<lparr>db_session := []\<rparr>, r))"

text \<open>One pass of the \<open>while True\<close> loop, with \<open>now\<close> the clock reading it takes.\<close>

definition reminder_cycle :: "env \<Rightarrow> datetime \<Rightarrow> state \<Rightarrow> state \<times> mail_log" where
  "reminder_cycle env now =
     app_context (\<lambda>st.
       let tasks = filter (\<lambda>t. t_reminder_set t \<and> \<not> t_complete t) (db_tasks st)
       in foldl (remind_step env now) (st, []) tasks)"

text \<open>
  The worker never returns; it is run here on the clock readings of its first passes,
  one per pass, and gives the state and the mail log after the last of them.
\<close>

fun reminder_worker :: "env \<Rightarrow> datetime list \<Rightarrow> state \<Rightarrow> state \<times> mail_log" where
  "reminder_worker env [] st = (st, [])"
| "reminder_worker env (now # later) st =
     (case reminder_cycle env now st of (st', log) \<Rightarrow>
        (case reminder_worker env later st' of (st'', log') \<Rightarrow> (st'', log @ log')))"

text \<open>
  What one pass does to the task table and to the log, task by task: \<open>in_window\<close> is
  the test of the loop body, \<open>disarm\<close> its write and \<open>events\<close> its log entries;
  \<open>armed\<close> is the filter of the query.
\<close>

definition in_window :: "datetime \<Rightarrow> task \<Rightarrow> bool" where
  "in_window now t =
     (case t_due_date t of
        None \<Rightarrow> False
      | Some due \<Rightarrow> let seconds_left = due - now in 0 < seconds_left \<and> seconds_left < 300000000)"

definition disarm :: "datetime \<Rightarrow> task list \<Rightarrow> task \<Rightarrow> task list" where
  "disarm now ts t = (if in_window now t then put_task (t\<lparr>t_reminder_set := False\<rparr>) ts else ts)"

definition events :: "env \<Rightarrow> user list \<Rightarrow> datetime \<Rightarrow> task \<Rightarrow> mail_log" where
  "events env users now t =
     (case t_due_date t of
        None \<Rightarrow> []
      | Some due \<Rightarrow>
          if in_window now t then map (Pair (t_id t)) (send_reminder env users t due) else [])"

definition armed :: "task \<Rightarrow> bool" where
  "armed t = (t_reminder_set t \<and> \<not> t_complete t)"

section \<open>Routes\<close>

definition dark_mode :: "state \<Rightarrow> bool" where
  "dark_mode st = (case session_dark_mode st of None \<Rightarrow> False | Some b \<Rightarrow> b)"

definition task_list_page ::
  "string \<Rightarrow> user \<Rightarrow> task list \<Rightarrow> stats \<Rightarrow> state \<Rightarrow> page" where
  "task_list_page template u tasks stats st =
     \<lparr>pg_template = template, pg_user = u, pg_tasks = tasks, pg_columns = [],
      pg_stats = stats, pg_sort_by = [], pg_dark_mode = dark_mode st\<rparr>"

text \<open>
  Every view reads \<open>session['user_id']\<close> (a \<open>KeyError\<close> without the key) and most fetch
  the user row, whose \<open>id\<close> is the key it was fetched by.
\<close>

definition with_user :: "(int \<Rightarrow> user \<Rightarrow> state \<times> response) \<Rightarrow> state \<Rightarrow> state \<times> response" where
  "with_user f st =
     (case session_user_id st of
        None \<Rightarrow> (st, Raise KeyError)
      | Some uid \<Rightarrow>
          (case get_user st uid of
             None \<Rightarrow> (st, Raise AttributeError)
           | Some u \<Rightarrow> f uid u))"

definition index :: "request \<Rightarrow> state \<Rightarrow> state \<times> response" where
  "index req = login_required (\<lambda>st. with_user (\<lambda>uid u.
     let tasks = sort_key due_key_sql (user_tasks st uid);
         stats = calculate_stats (clock req) tasks
     in (st, Render (task_list_page ''index.html'' u tasks stats st))) st)"

definition priority_rank :: "string \<Rightarrow> int" where
  "priority_rank p =
     (if p = ''High'' then 0 else if p = ''Medium'' then 1 else if p = ''Low'' then 2 else 3)"

definition due_key_py :: "task \<Rightarrow> datetime" where
  "due_key_py t = (case t_due_date t of None \<Rightarrow> datetime_max | Some d \<Rightarrow> d)"

definition default_names :: "string list" where
  "default_names = [''To Do'', ''In Progress'', ''Completed'', ''Pending'', ''Done'']"

definition workflow :: "request \<Rightarrow> state \<Rightarrow> state \<times> response" where
  "workflow req = login_required (\<lambda>st. with_user (\<lambda>uid u.
     let st1 = ensure_default_columns uid st;
         sort_by = (case args req ''sort'' of None \<Rightarrow> ''due_date'' | Some s \<Rightarrow> s);
         tasks_query = user_tasks st1 uid;
         tasks =
           (if sort_by = ''priority'' then sort_key (\<lambda>t. priority_rank (t_priority t)) tasks_query
            else if sort_by = ''created_at'' then sort_key (\<lambda>t. - t_created_at t) tasks_query
            else sort_key due_key_sql tasks_query);
         columns = user_columns st1 uid;
         existing_names = map c_name columns;
         st2 = foldl (\<lambda>s name.
                  if name \<notin> set existing_names
                  then session_add (PColumn \<lparr>c_id = None, c_name = name,
                                             c_position = 0, c_user_id = uid\<rparr>) s
                  else s)
                st1 default_names;
         shown = map (\<lambda>col. (col, sort_key due_key_py
                                 (filter (\<lambda>t. t_column_id t = c_id col) (db_tasks st2))))
                   columns;
         stats = calculate_stats (clock req) tasks
     in (st2, Render \<lparr>pg_template = ''workflow.html'', pg_user = u, pg_tasks = tasks,
                      pg_columns = shown, pg_stats = stats, pg_sort_by = sort_by,
                      pg_dark_mode = dark_mode st2\<rparr>)) st)"

definition completed :: "request \<Rightarrow> state \<Rightarrow> state \<times> response" where
  "completed req = login_required (\<lambda>st. with_user (\<lambda>uid u.
     let tasks = sort_key due_key_sql (filter (\<lambda>t. t_complete t) (user_tasks st uid));
         stats = calculate_stats (clock req) (user_tasks st uid)
     in (st, Render (task_list_page ''completed.html'' u tasks stats st))) st)"

definition pending :: "request \<Rightarrow> state \<Rightarrow> state \<times> response" where
  "pending req = login_required (\<lambda>st. with_user (\<lambda>uid u.
     let tasks = sort_key due_key_sql (filter (\<lambda>t. \<not> t_complete t) (user_tasks st uid));
         stats = calculate_stats (clock req) (user_tasks st uid)
     in (st, Render (task_list_page ''pending.html'' u tasks stats st))) st)"

text \<open>
  The column a new task goes to.  \<open>first_col\<close> is
  \<open>Column.query.filter_by(user_id=user_id).order_by(Column.position).first()\<close>; reading
  \<open>.id\<close> of a missing one raises, in the \<open>try\<close> and again in its \<open>except\<close> branch.
\<close>

definition resolve_column :: "env \<Rightarrow> state \<Rightarrow> int \<Rightarrow> string option \<Rightarrow> exn + int option" where
  "resolve_column env st user_id column_id =
     (let first_col = (case user_columns st user_id of [] \<Rightarrow> None | c # cs \<Rightarrow> Some c);
          first_id = (case first_col of None \<Rightarrow> Inl AttributeError | Some c \<Rightarrow> Inr (c_id c))
      in case column_id of
           None \<Rightarrow> (case first_col of None \<Rightarrow> Inr None | Some c \<Rightarrow> Inr (c_id c))
         | Some s \<Rightarrow>
             if s = [] then (case first_col of None \<Rightarrow> Inr None | Some c \<Rightarrow> Inr (c_id c))
             else
               (case py_int env s of
                  None \<Rightarrow> first_id
                | Some n \<Rightarrow>
                    (case find (\<lambda>c. c_id c = Some n \<and> c_user_id c = user_id) (db_columns st) of
                       None \<Rightarrow> first_id
                     | Some col \<Rightarrow> Inr (Some n))))"

definition add :: "env \<Rightarrow> request \<Rightarrow> state \<Rightarrow> state \<times> response" where
  "add env req = login_required (\<lambda>st.
     let title = strip (py_or (form req ''title'') []);
         desc = form req ''desc'';
         due = form req ''due'';
         priority = py_or (form req ''priority'') ''Medium'';
         column_id = form req ''column_id'';
         reminder = (form req ''reminder'' \<noteq> None)
     in if title = [] then
          (flash ''Title required'' ''danger'' st, Redirect (referrer_or_index req))
        else
          let due_date = (case due of
                            None \<Rightarrow> None
                          | Some d \<Rightarrow> if d = [] then None else strptime env d)
          in case session_user_id st of
               None \<Rightarrow> (st, Raise KeyError)
             | Some user_id \<Rightarrow>
                 let st1 = ensure_default_columns user_id st
                 in (case resolve_column env st1 user_id column_id of
                       Inl e \<Rightarrow> (st1, Raise e)
                     | Inr col \<Rightarrow>
                         let task = \<lparr>t_id = None, t_title = title, t_description = desc,
                                     t_due_date = due_date, t_priority = priority,
                                     t_complete = False, t_reminder_set = reminder,
                                     t_created_at = utc_clock req, t_status = ''todo'',
                                     t_user_id = user_id, t_column_id = col\<rparr>
                         in (flash ''Task added.'' ''success''
                               (commit (session_add (PTask task) st1)),
                             Redirect (referrer_or_index req))))"

definition add_column :: "request \<Rightarrow> state \<Rightarrow> state \<times> response" where
  "add_column req = login_required (\<lambda>st.
     let name = strip (py_or (form req ''name'') [])
     in if name = [] then
          (flash ''Name required'' ''danger'' st, Redirect (url_for ''workflow''))
        else
          (case session_user_id st of
             None \<Rightarrow> (st, Raise KeyError)
           | Some user_id \<Rightarrow>
               let pos = int (length (filter (\<lambda>c. c_user_id c = user_id) (db_columns st)));
                   col = \<lparr>c_id = None, c_name = name, c_position = pos, c_user_id = user_id\<rparr>
               in (flash ''Column added.'' ''success'' (commit (session_add (PColumn col) st)),
                   Redirect (url_for ''workflow''))))"

definition update_column :: "int \<Rightarrow> int \<Rightarrow> request \<Rightarrow> state \<Rightarrow> state \<times> response" where
  "update_column task_id col_id req = login_required (\<lambda>st.
     case get_task st task_id of
       None \<Rightarrow> (st, Abort 404)
     | Some task \<Rightarrow>
         if Some (t_user_id task) \<noteq> session_user_id st then
           (st, Json False (Some ''Unauthorized'') 403)
         else
           (case session_user_id st of
              None \<Rightarrow> (st, Raise KeyError)
            | Some uid \<Rightarrow>
                (case find (\<lambda>c. c_id c = Some col_id \<and> c_user_id c = uid) (db_columns st) of
                   None \<Rightarrow> (st, Json False (Some ''Column not found'') 404)
                 | Some col \<Rightarrow>
                     (commit (update_task (task\<lparr>t_column_id := Some col_id,
                                                t_status := lower (c_name col)\<rparr>) st),
                      Json True None 200))))"

definition update_status :: "int \<Rightarrow> string \<Rightarrow> request \<Rightarrow> state \<Rightarrow> state \<times> response" where
  "update_status task_id new_status req = login_required (\<lambda>st.
     case get_task st task_id of
       None \<Rightarrow> (st, Abort 404)
     | Some task \<Rightarrow>
         if Some (t_user_id task) \<noteq> session_user_id st then
           (st, Json False (Some ''Unauthorized'') 403)
         else
           (commit (update_task (task\<lparr>t_status := new_status\<rparr>) st), Json True None 200))"

definition toggle_reminder :: "int \<Rightarrow> request \<Rightarrow> state \<Rightarrow> state \<times> response" where
  "toggle_reminder i req = login_required (\<lambda>st.
     case get_task st i of
       None \<Rightarrow> (st, Abort 404)
     | Some t \<Rightarrow>
         if Some (t_user_id t) \<noteq> session_user_id st then
           (flash ''Not authorized'' ''danger'' st, Redirect (referrer_or_index req))
         else
           (flash ''Reminder toggled.'' ''info''
              (commit (update_task (t\<lparr>t_reminder_set := \<not> t_reminder_set t\<rparr>) st)),
            Redirect (referrer_or_index req)))"

definition toggle :: "int \<Rightarrow> request \<Rightarrow> state \<Rightarrow> state \<times> response" where
  "toggle i req = login_required (\<lambda>st.
     case get_task st i of
       None \<Rightarrow> (st, Abort 404)
     | Some t \<Rightarrow>
         if Some (t_user_id t) \<noteq> session_user_id st then
           (flash ''Not authorized.'' ''danger'' st, Redirect (url_for ''index''))
         else
           (flash ''Task updated.'' ''success''
              (commit (update_task (t\<lparr>t_complete := \<not> t_complete t\<rparr>) st)),
            Redirect (referrer_or_index req)))"

definition delete :: "int \<Rightarrow> request \<Rightarrow> state \<Rightarrow> state \<times> response" where
  "delete i req = login_required (\<lambda>st.
     case get_task st i of
       None \<Rightarrow> (st, Abort 404)
     | Some t \<Rightarrow>
         if Some (t_user_id t) \<noteq> session_user_id st then
           (flash ''Not authorized.'' ''danger'' st, Redirect (url_for ''index''))
         else
           (flash ''Task deleted.'' ''info''
              (commit (st\<lparr>db_tasks := filter (\<lambda>x. t_id x \<noteq> t_id t) (db_tasks st)\<rparr>)),
            Redirect (referrer_or_index req)))"

definition toggle_theme :: "request \<Rightarrow> state \<Rightarrow> state \<times> response" where
  "toggle_theme req = login_required (\<lambda>st.
     (st\<lparr>session_dark_mode := Some (\<not> dark_mode st)\<rparr>, Redirect (referrer_or_index req)))"

text \<open>
  \<open>delete_column\<close> binds its list of names to \<open>default_columns\<close> and then tests
  \<open>column and column.name not in default_names\<close>.  No \<open>default_names\<close> is bound in the
  function or in the module (the one of \<open>workflow\<close> is local to it), so for a column that
  exists the second operand raises \<open>NameError\<close>; for a missing column \<open>and\<close> stops at
  the first operand.
\<close>

definition delete_column :: "int \<Rightarrow> request \<Rightarrow> state \<Rightarrow> state \<times> response" where
  "delete_column column_id req = login_required (\<lambda>st.
     let column = get_column st column_id;
         default_columns = [''To Do'', ''In Progress'', ''Pending'', ''Done'']
     in case column of
          Some c \<Rightarrow> (st, Raise NameError)
        | None \<Rightarrow>
            (flash ''You cannot delete default columns.'' ''warning'' st,
             Redirect (url_for ''workflow'')))"

text \<open>
  \<open>edit_task\<close> reads four form fields (\<open>request.form[...]\<close> aborts with 400 on a
  missing one) and has no check of the task's owner.  \<open>due_date\<close> is the raw form string
  or \<open>None\<close>; a non-empty one is a \<open>str\<close> on a \<open>DateTime\<close> column, which the SQLite
  dialect refuses at the commit, so that nothing is written.
\<close>

definition edit_task :: "int \<Rightarrow> request \<Rightarrow> state \<Rightarrow> state \<times> response" where
  "edit_task task_id req = login_required (\<lambda>st.
     case get_task st task_id of
       None \<Rightarrow> (flash ''Task not found!'' ''danger'' st, Redirect (url_for ''workflow''))
     | Some task \<Rightarrow>
         (case (form req ''title'', form req ''description'',
                form req ''due_date'', form req ''priority'') of
            (Some title, Some description, Some due_date, Some priority) \<Rightarrow>
              if due_date \<noteq> [] then (st, Raise StatementError)
              else
                (flash ''Task updated!'' ''success''
                   (commit (update_task (task\<lparr>t_title := title,
                                              t_description := Some description,
                                              t_due_date := None,
                                              t_priority := priority\<rparr>) st)),
                 Redirect (url_for ''workflow''))
          | _ \<Rightarrow> (st, Abort 400)))"

text \<open>The routes behind \<open>login_required\<close>, and the handling of one request.\<close>

datatype route =
    Index | Workflow | Completed | Pending | Add | AddColumn
  | UpdateColumn int int | UpdateStatus int string
  | ToggleReminder int | Toggle int | Delete int
  | ToggleTheme | DeleteColumn int | EditTask int

fun view :: "env \<Rightarrow> route \<Rightarrow> request \<Rightarrow> state \<Rightarrow> state \<times> response" where
  "view env Index = index"
| "view env Workflow = workflow"
| "view env Completed = completed"
| "view env Pending = pending"
| "view env Add = add env"
| "view env AddColumn = add_column"
| "view env (UpdateColumn task_id col_id) = update_column task_id col_id"
| "view env (UpdateStatus task_id new_status) = update_status task_id new_status"
| "view env (ToggleReminder i) = toggle_reminder i"
| "view env (Toggle i) = toggle i"
| "view env (Delete i) = delete i"
| "view env ToggleTheme = toggle_theme"
| "view env (DeleteColumn column_id) = delete_column column_id"
| "view env (EditTask task_id) = edit_task task_id"

definition handle :: "env \<Rightarrow> route \<Rightarrow> request \<Rightarrow> state \<Rightarrow> state \<times> response" where
  "handle env r req = app_context (view env r req)"

section \<open>A small board\<close>

text \<open>
  Two users.  Ann (key 1) owns the three default columns and the column \<open>My Stage\<close>;
  Bob (key 2) owns one column and task 7, which is armed, not complete and due at
  \<open>due7\<close>; Ann owns task 8, which has no due date.
\<close>

definition ann :: user where
  "ann = \<lparr>u_id = Some 1, u_name = ''Ann'', u_email = ''ann@x.com'', u_password = ''pbkdf2:a''\<rparr>"

definition bob :: user where
  "bob = \<lparr>u_id = Some 2, u_name = ''Bob'', u_email = ''bob@x.com'', u_password = ''pbkdf2:b''\<rparr>"

definition board_columns :: "column list" where
  "board_columns =
     [\<lparr>c_id = Some 1, c_name = ''To Do'', c_position = 0, c_user_id = 1\<rparr>,
      \<lparr>c_id = Some 2, c_name = ''In Progress'', c_position = 1, c_user_id = 1\<rparr>,
      \<lparr>c_id = Some 3, c_name = ''Done'', c_position = 2, c_user_id = 1\<rparr>,
      \<lparr>c_id = Some 4, c_name = ''My Stage'', c_position = 3, c_user_id = 1\<rparr>,
      \<lparr>c_id = Some 5, c_name = ''To Do'', c_position = 0, c_user_id = 2\<rparr>]"

definition due7 :: datetime where
  "due7 = 63900000000000000"

definition task7 :: task where
  "task7 = \<lparr>t_id = Some 7, t_title = ''Pay rent'', t_description = Some ''by transfer'',
            t_due_date = Some due7, t_priority = ''High'', t_complete = False,
            t_reminder_set = True, t_created_at = 63899000000000000, t_status = ''todo'',
            t_user_id = 2, t_column_id = Some 5\<rparr>"

definition task8 :: task where
  "task8 = \<lparr>t_id = Some 8, t_title = ''Read'', t_description = None,
            t_due_date = None, t_priority = ''Medium'', t_complete = False,
            t_reminder_set = False, t_created_at = 63899000000000001, t_status = ''todo'',
            t_user_id = 1, t_column_id = Some 1\<rparr>"

definition board :: "int option \<Rightarrow> state" where
  "board who =
     \<lparr>db_users = [ann, bob], db_columns = board_columns, db_tasks = [task7, task8],
      db_session = [], session_user_id = who, session_dark_mode = None, flashes = []\<rparr>"

definition request0 :: request where
  "request0 = \<lparr>form = Map.empty, args = Map.empty, referrer = None,
               clock = due7 - 200000000, utc_clock = due7 - 200000000\<rparr>"

definition env0 :: "string option \<Rightarrow> string option \<Rightarrow> bool \<Rightarrow> env" where
  "env0 username password ok =
     \<lparr>mail_username = username, mail_password = password, mail_send_ok = (\<lambda>m. ok),
      strftime = (\<lambda>d. ''2025-12-01 10:00''), strptime = (\<lambda>s. None),
      py_int = (\<lambda>s. None)\<rparr>"

text \<open>Two form submissions: a title of a space and a tab, and an edit of a task.\<close>

definition blank_request :: request where
  "blank_request =
     request0\<lparr>form := [''title'' \<mapsto> [CHR '' '', CHR 0x09], ''priority'' \<mapsto> ''High'']\<rparr>"

definition edit_request :: request where
  "edit_request =
     request0\<lparr>form := [''title'' \<mapsto> ''Pay Ann'', ''description'' \<mapsto> ''in cash'',
                       ''due_date'' \<mapsto> [], ''priority'' \<mapsto> ''Low'']\<rparr>"

text \<open>The names of the columns a rendered page shows.\<close>

fun shown_names :: "response \<Rightarrow> string list" where
  "shown_names (Render pg) = map (\<lambda>p. c_name (fst p)) (pg_columns pg)"
| "shown_names r = []"

section \<open>Facts about the tables\<close>

lemma find_put_task:
  "find (\<lambda>x. t_id x = k) (put_task t' ts) =
     (if t_id t' = k then map_option (\<lambda>_. t') (find (\<lambda>x. t_id x = k) ts)
      else find (\<lambda>x. t_id x = k) ts)"
  by (induction ts) (auto simp: put_task_def)

lemma find_key: "find (\<lambda>x. t_id x = k) ts = Some t \<Longrightarrow> t_id t = k \<and> t \<in> set ts"
  by (induction ts) (auto split: if_splits)

lemma map_t_id_put_task: "t_id t' = t_id t \<Longrightarrow> map t_id (put_task t' ts) = map t_id ts"
  by (induction ts) (auto simp: put_task_def)

section \<open>Statistics\<close>

text \<open>
  C7.  For every list of tasks \<open>calculate_stats\<close> gives a total that is the sum of the
  pending count (the tasks that are not complete) and the completed count (the tasks
  that are complete).  The overdue count does not see the tasks without a due date:
  it is the same on the list with all of them removed, and taking a single such task
  out of the list, complete or not, leaves it as it was.
\<close>

theorem calculate_stats_counts:
  "stat_total (calculate_stats now ts)
     = stat_pending (calculate_stats now ts) + stat_completed (calculate_stats now ts)
   \<and> stat_pending (calculate_stats now ts) = length (filter (\<lambda>t. \<not> t_complete t) ts)
   \<and> stat_completed (calculate_stats now ts) = length (filter t_complete ts)
   \<and> stat_overdue (calculate_stats now ts)
       = stat_overdue (calculate_stats now (filter (\<lambda>t. t_due_date t \<noteq> None) ts))
   \<and> (t_due_date t = None \<longrightarrow>
        stat_overdue (calculate_stats now (xs @ t # ys))
          = stat_overdue (calculate_stats now (xs @ ys)))"
proof -
  have part: "length ts = length (filter (\<lambda>t. \<not> t_complete t) ts) + length (filter t_complete ts)"
    by (induction ts) auto
  have due: "length (filter (is_overdue now) (filter (\<lambda>t. t_due_date t \<noteq> None) ts))
               = length (filter (is_overdue now) ts)"
    by (induction ts) (auto simp: is_overdue_def)
  have none: "t_due_date t = None \<Longrightarrow> \<not> is_overdue now t"
    by (simp add: is_overdue_def)
  have c1: "stat_total (calculate_stats now ts)
     = stat_pending (calculate_stats now ts) + stat_completed (calculate_stats now ts)"
    using part by (simp add: calculate_stats_def)
  have c4: "stat_overdue (calculate_stats now ts)
       = stat_overdue (calculate_stats now (filter (\<lambda>t. t_due_date t \<noteq> None) ts))"
    using due unfolding calculate_stats_def by (simp del: filter_filter)
  have c5: "t_due_date t = None \<longrightarrow>
        stat_overdue (calculate_stats now (xs @ t # ys))
          = stat_overdue (calculate_stats now (xs @ ys))"
    using none by (simp add: calculate_stats_def)
  show ?thesis
    using c1 c4 c5 by (simp add: calculate_stats_def)
qed

theorem calculate_stats_counts_witness:
  "t_due_date task8 = None
   \<and> stat_total (calculate_stats due7 [task7, task8]) = 2
   \<and> stat_pending (calculate_stats due7 [task7, task8])
        + stat_completed (calculate_stats due7 [task7, task8]) = 2
   \<and> stat_overdue (calculate_stats due7 ([task7] @ task8 # []))
       = stat_overdue (calculate_stats due7 ([task7] @ []))"
  using calculate_stats_counts [of due7 "[task7, task8]" task8 "[task7]" "[]"]
  by (simp add: task8_def calculate_stats_def)

section \<open>Default columns\<close>

lemma next_id_snoc: "next_id (ids @ [Some k]) = max (k + 1) (next_id ids)"
  by (simp add: next_id_def)

lemma next_id_snoc2: "next_id (ids @ [Some k, Some j]) = max (j + 1) (max (k + 1) (next_id ids))"
  by (simp add: next_id_def)

lemma sort_key_Nil_iff: "sort_key f xs = [] \<longleftrightarrow> xs = []"
  by (metis length_0_conv length_sort)

lemma ensure_adds:
  "user_columns st u = [] \<Longrightarrow>
   ensure_default_columns u st =
     commit (st\<lparr>db_session := db_session st @
        [PColumn \<lparr>c_id = None, c_name = ''To Do'', c_position = 0, c_user_id = u\<rparr>,
         PColumn \<lparr>c_id = None, c_name = ''In Progress'', c_position = 1, c_user_id = u\<rparr>,
         PColumn \<lparr>c_id = None, c_name = ''Done'', c_position = 2, c_user_id = u\<rparr>]\<rparr>)"
  by (simp add: ensure_default_columns_def defaults_def enumerate_eq_zip session_add_def upt_rec)

lemma ensure_keeps: "user_columns st u \<noteq> [] \<Longrightarrow> ensure_default_columns u st = st"
  by (simp add: ensure_default_columns_def)

lemma ensure_owns: "user_columns (ensure_default_columns u st) u \<noteq> []"
proof (cases "user_columns st u = []")
  case True
  have "filter (\<lambda>c. c_user_id c = u) (db_columns (ensure_default_columns u st)) \<noteq> []"
    unfolding ensure_adds [OF True] commit_def by (simp add: filter_empty_conv)
  then show ?thesis by (simp add: user_columns_def sort_key_Nil_iff)
next
  case False
  then show ?thesis by (simp add: ensure_keeps)
qed

text \<open>
  C6.  \<open>ensure_default_columns\<close> is idempotent: a second call right after the first
  changes nothing.  It leaves the state as it is when the user owns a column.  When the
  user owns none (and nothing else waits in the database session) it appends exactly
  three rows, \<open>To Do\<close>, \<open>In Progress\<close> and \<open>Done\<close> at positions 0, 1 and 2,
  with the next three keys, and these are then the user's columns.
\<close>

theorem ensure_default_columns_idempotent:
  "ensure_default_columns u (ensure_default_columns u st) = ensure_default_columns u st
   \<and> (user_columns st u \<noteq> [] \<longrightarrow> ensure_default_columns u st = st)
   \<and> (user_columns st u = [] \<and> db_session st = [] \<longrightarrow>
        ensure_default_columns u st =
          st\<lparr>db_columns := db_columns st @
            [\<lparr>c_id = Some (next_id (map c_id (db_columns st))), c_name = ''To Do'',
              c_position = 0, c_user_id = u\<rparr>,
             \<lparr>c_id = Some (next_id (map c_id (db_columns st)) + 1), c_name = ''In Progress'',
              c_position = 1, c_user_id = u\<rparr>,
             \<lparr>c_id = Some (next_id (map c_id (db_columns st)) + 2), c_name = ''Done'',
              c_position = 2, c_user_id = u\<rparr>]\<rparr>
        \<and> map (\<lambda>c. (c_name c, c_position c)) (user_columns (ensure_default_columns u st) u)
            = [(''To Do'', 0), (''In Progress'', 1), (''Done'', 2)])"
proof (intro conjI impI)
  show "ensure_default_columns u (ensure_default_columns u st) = ensure_default_columns u st"
    using ensure_owns [of u st] by (rule ensure_keeps)
next
  assume "user_columns st u \<noteq> []"
  then show "ensure_default_columns u st = st" by (rule ensure_keeps)
next
  assume a: "user_columns st u = [] \<and> db_session st = []"
  then have none: "filter (\<lambda>c. c_user_id c = u) (db_columns st) = []"
    by (simp add: user_columns_def sort_key_Nil_iff)
  show eq: "ensure_default_columns u st =
          st\<lparr>db_columns := db_columns st @
            [\<lparr>c_id = Some (next_id (map c_id (db_columns st))), c_name = ''To Do'',
              c_position = 0, c_user_id = u\<rparr>,
             \<lparr>c_id = Some (next_id (map c_id (db_columns st)) + 1), c_name = ''In Progress'',
              c_position = 1, c_user_id = u\<rparr>,
             \<lparr>c_id = Some (next_id (map c_id (db_columns st)) + 2), c_name = ''Done'',
              c_position = 2, c_user_id = u\<rparr>]\<rparr>"
    using a by (intro state.equality) (simp_all add: ensure_adds commit_def next_id_snoc next_id_snoc2)
  show "map (\<lambda>c. (c_name c, c_position c)) (user_columns (ensure_default_columns u st) u)
            = [(''To Do'', 0), (''In Progress'', 1), (''Done'', 2)]"
    unfolding eq using none by (simp add: user_columns_def)
qed

theorem ensure_default_columns_idempotent_witness:
  "user_columns (board None) 1 \<noteq> [] \<and> ensure_default_columns 1 (board None) = board None
   \<and> user_columns (board None) 3 = [] \<and> db_session (board None) = []
   \<and> db_columns (ensure_default_columns 3 (board None)) = board_columns @
        [\<lparr>c_id = Some 6, c_name = ''To Do'', c_position = 0, c_user_id = 3\<rparr>,
         \<lparr>c_id = Some 7, c_name = ''In Progress'', c_position = 1, c_user_id = 3\<rparr>,
         \<lparr>c_id = Some 8, c_name = ''Done'', c_position = 2, c_user_id = 3\<rparr>]
   \<and> ensure_default_columns 3 (ensure_default_columns 3 (board None))
       = ensure_default_columns 3 (board None)"
proof -
  have a: "user_columns (board None) 1 \<noteq> []"
    by (simp add: user_columns_def board_def board_columns_def)
  have b: "user_columns (board None) 3 = [] \<and> db_session (board None) = []"
    by (simp add: user_columns_def board_def board_columns_def)
  have n: "next_id (map c_id board_columns) = 6"
    by (simp add: next_id_def board_columns_def)
  have c: "db_columns (board None) = board_columns"
    by (simp add: board_def)
  from ensure_default_columns_idempotent [of 1 "board None"] a
  have keep: "ensure_default_columns 1 (board None) = board None"
    by blast
  from ensure_default_columns_idempotent [of 3 "board None"] b
  have made: "ensure_default_columns 3 (board None) =
      (board None)\<lparr>db_columns := db_columns (board None) @
        [\<lparr>c_id = Some (next_id (map c_id (db_columns (board None)))), c_name = ''To Do'',
          c_position = 0, c_user_id = 3\<rparr>,
         \<lparr>c_id = Some (next_id (map c_id (db_columns (board None))) + 1),
          c_name = ''In Progress'', c_position = 1, c_user_id = 3\<rparr>,
         \<lparr>c_id = Some (next_id (map c_id (db_columns (board None))) + 2), c_name = ''Done'',
          c_position = 2, c_user_id = 3\<rparr>]\<rparr>"
    and again: "ensure_default_columns 3 (ensure_default_columns 3 (board None))
       = ensure_default_columns 3 (board None)"
    by blast+
  have cols: "db_columns (ensure_default_columns 3 (board None)) = board_columns @
        [\<lparr>c_id = Some 6, c_name = ''To Do'', c_position = 0, c_user_id = 3\<rparr>,
         \<lparr>c_id = Some 7, c_name = ''In Progress'', c_position = 1, c_user_id = 3\<rparr>,
         \<lparr>c_id = Some 8, c_name = ''Done'', c_position = 2, c_user_id = 3\<rparr>]"
    unfolding made c n by simp
  show ?thesis
    using a b keep cols again by blast
qed

section \<open>Adding a task\<close>

lemma strip_blank: "\<forall>c\<in>set s. is_space c \<Longrightarrow> strip s = []"
proof -
  assume "\<forall>c\<in>set s. is_space c"
  then have d: "dropWhile is_space s = []"
    by (simp add: dropWhile_eq_Nil_conv)
  show ?thesis
    unfolding strip_def d by simp
qed

lemma title_blank:
  assumes "case form req ''title'' of None \<Rightarrow> True | Some s \<Rightarrow> \<forall>c\<in>set s. is_space c"
  shows "strip (py_or (form req ''title'') []) = []"
proof (cases "form req ''title''")
  case None
  then show ?thesis by (simp add: py_or_def strip_def)
next
  case (Some s)
  with assms have "\<forall>c\<in>set s. is_space c" by simp
  then have "strip s = []" by (rule strip_blank)
  then show ?thesis using Some by (simp add: py_or_def strip_def)
qed

text \<open>
  C8.  A request to \<open>/add\<close> whose title is missing, empty or made of whitespace only
  never changes a table, so no task row is persisted.  For a logged-in session it flashes
  \<open>Title required\<close> in the category \<open>danger\<close> and redirects back.
\<close>

theorem add_blank_title_rejected:
  assumes "case form req ''title'' of None \<Rightarrow> True | Some s \<Rightarrow> \<forall>c\<in>set s. is_space c"
  shows "db_tasks (fst (handle env Add req st)) = db_tasks st
     \<and> db_columns (fst (handle env Add req st)) = db_columns st
     \<and> db_users (fst (handle env Add req st)) = db_users st
     \<and> (session_user_id st \<noteq> None \<longrightarrow>
          flashes (fst (handle env Add req st)) = flashes st @ [(''Title required'', ''danger'')]
          \<and> snd (handle env Add req st) = Redirect (referrer_or_index req)
          \<and> add env req st = (flash ''Title required'' ''danger'' st, Redirect (referrer_or_index req)))"
  using title_blank [OF assms]
  by (simp add: handle_def app_context_def add_def login_required_def flash_def Let_def)

theorem add_blank_title_rejected_witness:
  "form blank_request ''title'' = Some [CHR '' '', CHR 0x09]
   \<and> is_space (CHR '' '') \<and> is_space (CHR 0x09)
   \<and> session_user_id (board (Some 1)) \<noteq> None
   \<and> db_tasks (fst (handle (env0 None None True) Add blank_request (board (Some 1)))) = [task7, task8]
   \<and> flashes (fst (handle (env0 None None True) Add blank_request (board (Some 1))))
       = [(''Title required'', ''danger'')]
   \<and> snd (handle (env0 None None True) Add blank_request (board (Some 1))) = Redirect ''/''"
proof -
  have f: "form blank_request ''title'' = Some [CHR '' '', CHR 0x09]"
    by (simp add: blank_request_def request0_def)
  have sp: "is_space (CHR '' '') \<and> is_space (CHR 0x09)"
    by (simp add: is_space_def)
  have h: "case form blank_request ''title'' of None \<Rightarrow> True | Some s \<Rightarrow> \<forall>c\<in>set s. is_space c"
    using sp by (simp add: f)
  have r: "referrer_or_index blank_request = ''/''"
    by (simp add: referrer_or_index_def blank_request_def request0_def py_or_def url_for_def)
  show ?thesis
    using add_blank_title_rejected [OF h, of "env0 None None True" "board (Some 1)"] f sp
    by (simp add: board_def r)
qed

section \<open>Toggling\<close>

lemma toggle_owner:
  assumes "session_user_id st = Some a" "get_task st i = Some t" "t_user_id t = a"
  shows "handle env (Toggle i) req st =
           (st\<lparr>db_tasks := put_task (t\<lparr>t_complete := \<not> t_complete t\<rparr>) (db_tasks st),
               db_session := [],
               flashes := flashes st @ [(''Task updated.'', ''success'')]\<rparr>,
            Redirect (referrer_or_index req))"
  using assms
  by (simp add: handle_def app_context_def toggle_def login_required_def get_task_def
      flash_def update_task_def commit_def)

lemma toggle_reminder_owner:
  assumes "session_user_id st = Some a" "get_task st i = Some t" "t_user_id t = a"
  shows "handle env (ToggleReminder i) req st =
           (st\<lparr>db_tasks := put_task (t\<lparr>t_reminder_set := \<not> t_reminder_set t\<rparr>) (db_tasks st),
               db_session := [],
               flashes := flashes st @ [(''Reminder toggled.'', ''info'')]\<rparr>,
            Redirect (referrer_or_index req))"
  using assms
  by (simp add: handle_def app_context_def toggle_reminder_def login_required_def get_task_def
      flash_def update_task_def commit_def)

lemma get_task_put:
  assumes "get_task st i = Some t" "t_id t' = t_id t"
  shows "find (\<lambda>x. t_id x = Some i) (put_task t' (db_tasks st)) = Some t'"
proof -
  from assms(1) have "t_id t = Some i"
    unfolding get_task_def by (rule find_key [THEN conjunct1])
  with assms show ?thesis
    by (simp add: find_put_task get_task_def)
qed

lemma put_task_as_map:
  assumes "get_task st i = Some t" "t_id t' = t_id t"
  shows "put_task t' ts = map (\<lambda>x. if t_id x = Some i then t' else x) ts"
proof -
  from assms(1) have "t_id t = Some i"
    unfolding get_task_def by (rule find_key [THEN conjunct1])
  with assms(2) show ?thesis
    by (simp add: put_task_def)
qed

text \<open>
  C10.  For a task that belongs to the user of the session, a request to \<open>/toggle\<close>
  replaces the row by the same row with only \<open>complete\<close> negated, and a request to
  \<open>/toggle_reminder\<close> by the same row with only \<open>reminder_set\<close> negated; no other row
  of the task table and no user or column changes.  A second request of the same kind
  brings the row back to what it was.
\<close>

theorem toggle_changes_one_field:
  assumes "session_user_id st = Some a" "get_task st i = Some t" "t_user_id t = a"
  shows
    "get_task (fst (handle env (Toggle i) req st)) i = Some (t\<lparr>t_complete := \<not> t_complete t\<rparr>)
     \<and> db_tasks (fst (handle env (Toggle i) req st))
         = map (\<lambda>x. if t_id x = Some i then t\<lparr>t_complete := \<not> t_complete t\<rparr> else x) (db_tasks st)
     \<and> db_users (fst (handle env (Toggle i) req st)) = db_users st
     \<and> db_columns (fst (handle env (Toggle i) req st)) = db_columns st
     \<and> get_task (fst (handle env (Toggle i) req' (fst (handle env (Toggle i) req st)))) i = Some t
     \<and> get_task (fst (handle env (ToggleReminder i) req st)) i
         = Some (t\<lparr>t_reminder_set := \<not> t_reminder_set t\<rparr>)
     \<and> db_tasks (fst (handle env (ToggleReminder i) req st))
         = map (\<lambda>x. if t_id x = Some i then t\<lparr>t_reminder_set := \<not> t_reminder_set t\<rparr> else x)
             (db_tasks st)
     \<and> db_users (fst (handle env (ToggleReminder i) req st)) = db_users st
     \<and> db_columns (fst (handle env (ToggleReminder i) req st)) = db_columns st
     \<and> get_task (fst (handle env (ToggleReminder i) req'
                        (fst (handle env (ToggleReminder i) req st)))) i = Some t"
proof -
  let ?c = "t\<lparr>t_complete := \<not> t_complete t\<rparr>"
  let ?r = "t\<lparr>t_reminder_set := \<not> t_reminder_set t\<rparr>"
  let ?sc = "fst (handle env (Toggle i) req st)"
  let ?sr = "fst (handle env (ToggleReminder i) req st)"
  note c = toggle_owner [OF assms, of env req]
  note r = toggle_reminder_owner [OF assms, of env req]
  have gc: "get_task ?sc i = Some ?c"
    using get_task_put [OF assms(2), of ?c] by (simp add: c get_task_def)
  have gr: "get_task ?sr i = Some ?r"
    using get_task_put [OF assms(2), of ?r] by (simp add: r get_task_def)
  have mc: "db_tasks ?sc = map (\<lambda>x. if t_id x = Some i then ?c else x) (db_tasks st)"
    using put_task_as_map [OF assms(2), of ?c "db_tasks st"] by (simp add: c)
  have mr: "db_tasks ?sr = map (\<lambda>x. if t_id x = Some i then ?r else x) (db_tasks st)"
    using put_task_as_map [OF assms(2), of ?r "db_tasks st"] by (simp add: r)
  have sc: "session_user_id ?sc = Some a" and sr: "session_user_id ?sr = Some a"
    using assms(1) by (simp_all add: c r)
  have uc: "t_user_id ?c = a" and ur: "t_user_id ?r = a"
    using assms(3) by simp_all
  have c2: "get_task (fst (handle env (Toggle i) req' ?sc)) i = Some t"
    using get_task_put [OF gc, of t] by (simp add: toggle_owner [OF sc gc uc] get_task_def)
  have r2: "get_task (fst (handle env (ToggleReminder i) req' ?sr)) i = Some t"
    using get_task_put [OF gr, of t]
    by (simp add: toggle_reminder_owner [OF sr gr ur] get_task_def)
  have rest: "db_users ?sc = db_users st" "db_columns ?sc = db_columns st"
    "db_users ?sr = db_users st" "db_columns ?sr = db_columns st"
    by (simp_all add: c r)
  show ?thesis
    by (intro conjI) (fact gc mc c2 gr mr r2 rest)+
qed

theorem toggle_changes_one_field_witness:
  "session_user_id (board (Some 1)) = Some 1 \<and> get_task (board (Some 1)) 8 = Some task8
   \<and> t_user_id task8 = 1
   \<and> db_tasks (fst (handle (env0 None None True) (Toggle 8) request0 (board (Some 1))))
       = [task7, task8\<lparr>t_complete := True\<rparr>]
   \<and> db_tasks (fst (handle (env0 None None True) (ToggleReminder 8) request0 (board (Some 1))))
       = [task7, task8\<lparr>t_reminder_set := True\<rparr>]
   \<and> get_task (fst (handle (env0 None None True) (Toggle 8) request0
        (fst (handle (env0 None None True) (Toggle 8) request0 (board (Some 1)))))) 8 = Some task8"
proof -
  have s: "session_user_id (board (Some 1)) = Some 1"
    by (simp add: board_def)
  have g: "get_task (board (Some 1)) 8 = Some task8"
    by (simp add: board_def get_task_def task7_def task8_def)
  have u: "t_user_id task8 = 1"
    by (simp add: task8_def)
  have ts: "db_tasks (board (Some 1)) = [task7, task8]"
    by (simp add: board_def)
  have ids: "t_id task7 = Some 7" "t_id task8 = Some 8" "\<not> t_complete task8"
    "\<not> t_reminder_set task8"
    by (simp_all add: task7_def task8_def)
  show ?thesis
    using toggle_changes_one_field [OF s g u, of "env0 None None True" request0 request0] s g u
    by (simp add: ts ids)
qed

section \<open>Ownership checks\<close>

lemma get_task_board: "get_task (board who) 7 = Some task7" "get_task (board who) 8 = Some task8"
  by (simp_all add: get_task_def board_def task7_def task8_def)

text \<open>
  The five routes that compare \<open>task.user_id\<close> with the user of the session refuse a
  task of another user and change nothing but the flashed messages.
\<close>

lemma other_user_rejected:
  assumes "session_user_id st = Some a" "get_task st i = Some t" "t_user_id t \<noteq> a"
  shows "toggle i req st = (flash ''Not authorized.'' ''danger'' st, Redirect (url_for ''index''))"
    and "toggle_reminder i req st
           = (flash ''Not authorized'' ''danger'' st, Redirect (referrer_or_index req))"
    and "delete i req st = (flash ''Not authorized.'' ''danger'' st, Redirect (url_for ''index''))"
    and "update_column i c req st = (st, Json False (Some ''Unauthorized'') 403)"
    and "update_status i s req st = (st, Json False (Some ''Unauthorized'') 403)"
  using assms
  by (simp_all add: toggle_def toggle_reminder_def delete_def update_column_def
      update_status_def login_required_def)

text \<open>\<open>edit_task\<close> writes the submitted fields whoever owns the task.\<close>

lemma edit_task_any_owner:
  assumes "session_user_id st = Some a" "get_task st i = Some t"
    and "form req ''title'' = Some title" "form req ''description'' = Some description"
    and "form req ''due_date'' = Some []" "form req ''priority'' = Some priority"
  shows "handle env (EditTask i) req st =
           (st\<lparr>db_tasks := put_task (t\<lparr>t_title := title, t_description := Some description,
                                         t_due_date := None, t_priority := priority\<rparr>) (db_tasks st),
               db_session := [],
               flashes := flashes st @ [(''Task updated!'', ''success'')]\<rparr>,
            Redirect ''/workflow'')"
  using assms
  by (simp add: handle_def app_context_def edit_task_def login_required_def get_task_def
      flash_def update_task_def commit_def url_for_def)

text \<open>
  C1.  Ann (user 1) is logged in and posts to \<open>/edit_task/7\<close>; task 7 belongs to Bob
  (user 2).  The request is accepted: it redirects to the board with the message
  \<open>Task updated!\<close>, and Bob's row now carries Ann's title, description, due date and
  priority.
\<close>

theorem edit_task_ignores_owner:
  "session_user_id (board (Some 1)) = Some 1
   \<and> get_task (board (Some 1)) 7 = Some task7
   \<and> t_user_id task7 = 2
   \<and> snd (handle (env0 None None True) (EditTask 7) edit_request (board (Some 1)))
       = Redirect ''/workflow''
   \<and> flashes (fst (handle (env0 None None True) (EditTask 7) edit_request (board (Some 1))))
       = [(''Task updated!'', ''success'')]
   \<and> db_tasks (fst (handle (env0 None None True) (EditTask 7) edit_request (board (Some 1))))
       = [task7\<lparr>t_title := ''Pay Ann'', t_description := Some ''in cash'',
                 t_due_date := None, t_priority := ''Low''\<rparr>, task8]"
proof -
  have s: "session_user_id (board (Some 1)) = Some 1"
    by (simp add: board_def)
  have f: "form edit_request ''title'' = Some ''Pay Ann''"
    "form edit_request ''description'' = Some ''in cash''"
    "form edit_request ''due_date'' = Some []"
    "form edit_request ''priority'' = Some ''Low''"
    by (simp_all add: edit_request_def request0_def)
  have u: "t_user_id task7 = 2"
    by (simp add: task7_def)
  have p: "put_task (task7\<lparr>t_title := ''Pay Ann'', t_description := Some ''in cash'',
                 t_due_date := None, t_priority := ''Low''\<rparr>) (db_tasks (board (Some 1)))
        = [task7\<lparr>t_title := ''Pay Ann'', t_description := Some ''in cash'',
                 t_due_date := None, t_priority := ''Low''\<rparr>, task8]"
    by (simp add: put_task_def board_def task7_def task8_def)
  show ?thesis
    unfolding edit_task_any_owner [OF s get_task_board(1) f]
    using s u p by (simp add: get_task_board) (simp add: board_def)
qed

section \<open>Deleting a column\<close>

text \<open>No request to \<open>/delete_column\<close> ever removes a row.\<close>

lemma delete_column_never_deletes:
  "db_columns (fst (handle env (DeleteColumn c) req st)) = db_columns st"
  by (simp add: handle_def app_context_def delete_column_def login_required_def flash_def
      get_column_def split: option.splits)

text \<open>
  C2.  Ann is logged in and owns column 3, \<open>Done\<close>, and column 4, \<open>My Stage\<close>.  A
  request to delete either one ends in a \<open>NameError\<close>: nothing is flashed, and the
  column is still there.
\<close>

theorem delete_column_raises:
  "map c_name (filter (\<lambda>c. c_id c = Some 3 \<or> c_id c = Some 4) (db_columns (board (Some 1))))
     = [''Done'', ''My Stage'']
   \<and> handle (env0 None None True) (DeleteColumn 4) request0 (board (Some 1))
       = (board (Some 1), Raise NameError)
   \<and> handle (env0 None None True) (DeleteColumn 3) request0 (board (Some 1))
       = (board (Some 1), Raise NameError)"
  by (simp add: handle_def app_context_def delete_column_def login_required_def
      get_column_def board_def board_columns_def)

section \<open>The login gate\<close>

text \<open>
  C3, as stated, fails: an anonymous request to either JSON route is redirected to the
  login page like any other, and the answer is no JSON payload.
\<close>

theorem json_routes_redirect_anonymous:
  "session_user_id (board None) = None
   \<and> snd (handle (env0 None None True) (UpdateColumn 7 1) request0 (board None))
       = Redirect ''/login''
   \<and> \<not> is_json (snd (handle (env0 None None True) (UpdateColumn 7 1) request0 (board None)))
   \<and> snd (handle (env0 None None True) (UpdateStatus 7 ''done'') request0 (board None))
       = Redirect ''/login''
   \<and> \<not> is_json (snd (handle (env0 None None True) (UpdateStatus 7 ''done'') request0 (board None)))"
  by (simp add: handle_def app_context_def update_column_def update_status_def
      login_required_def board_def url_for_def)

text \<open>
  C3, amended.  Without a logged-in session every route behind \<open>login_required\<close>, the
  two JSON routes included, flashes \<open>Please login first!\<close> in the category
  \<open>warning\<close> and redirects to the login page, and does nothing else.  The JSON routes
  answer with the payload \<open>{success: false, error: Unauthorized}\<close> and status 403 when
  the session is logged in and the task belongs to another user, and in no other case:
  not for an anonymous session, not for a task that does not exist, and not for the
  owner of the task.
\<close>

theorem login_required_redirects:
  "(session_user_id st = None \<longrightarrow>
      view env r req st = (flash ''Please login first!'' ''warning'' st, Redirect ''/login''))
   \<and> (session_user_id st = Some a \<and> get_task st i = Some t \<and> t_user_id t \<noteq> a \<longrightarrow>
        view env (UpdateColumn i c) req st = (st, Json False (Some ''Unauthorized'') 403)
        \<and> view env (UpdateStatus i s) req st = (st, Json False (Some ''Unauthorized'') 403))
   \<and> (snd (view env (UpdateColumn i c) req st) = Json False (Some ''Unauthorized'') 403
        \<longleftrightarrow> (\<exists>u x. session_user_id st = Some u \<and> get_task st i = Some x \<and> t_user_id x \<noteq> u))
   \<and> (snd (view env (UpdateStatus i s) req st) = Json False (Some ''Unauthorized'') 403
        \<longleftrightarrow> (\<exists>u x. session_user_id st = Some u \<and> get_task st i = Some x \<and> t_user_id x \<noteq> u))"
proof (intro conjI impI)
  assume "session_user_id st = None"
  then have gate: "\<And>f. login_required f st
      = (flash ''Please login first!'' ''warning'' st, Redirect ''/login'')"
    by (simp add: login_required_def url_for_def)
  show "view env r req st = (flash ''Please login first!'' ''warning'' st, Redirect ''/login'')"
    by (cases r)
      (simp_all add: gate index_def workflow_def completed_def pending_def add_def
        add_column_def update_column_def update_status_def toggle_reminder_def toggle_def
        delete_def toggle_theme_def delete_column_def edit_task_def)
next
  assume a: "session_user_id st = Some a \<and> get_task st i = Some t \<and> t_user_id t \<noteq> a"
  then show "view env (UpdateColumn i c) req st = (st, Json False (Some ''Unauthorized'') 403)"
    by (simp add: update_column_def login_required_def)
  from a show "view env (UpdateStatus i s) req st = (st, Json False (Some ''Unauthorized'') 403)"
    by (simp add: update_status_def login_required_def)
next
  show "snd (view env (UpdateColumn i c) req st) = Json False (Some ''Unauthorized'') 403
        \<longleftrightarrow> (\<exists>u x. session_user_id st = Some u \<and> get_task st i = Some x \<and> t_user_id x \<noteq> u)"
  proof (cases "session_user_id st")
    case None
    then show ?thesis
      by (simp add: update_column_def login_required_def)
  next
    case (Some u)
    show ?thesis
    proof (cases "get_task st i")
      case None
      with Some show ?thesis
        by (simp add: update_column_def login_required_def)
    next
      case task: (Some x)
      show ?thesis
      proof (cases "t_user_id x = u")
        case True
        with Some task show ?thesis
          by (simp add: update_column_def login_required_def split: option.splits)
      next
        case False
        with Some task show ?thesis
          by (simp add: update_column_def login_required_def)
      qed
    qed
  qed
next
  show "snd (view env (UpdateStatus i s) req st) = Json False (Some ''Unauthorized'') 403
        \<longleftrightarrow> (\<exists>u x. session_user_id st = Some u \<and> get_task st i = Some x \<and> t_user_id x \<noteq> u)"
  proof (cases "session_user_id st")
    case None
    then show ?thesis
      by (simp add: update_status_def login_required_def)
  next
    case (Some u)
    show ?thesis
    proof (cases "get_task st i")
      case None
      with Some show ?thesis
        by (simp add: update_status_def login_required_def)
    next
      case task: (Some x)
      with Some show ?thesis
        by (cases "t_user_id x = u") (simp_all add: update_status_def login_required_def)
    qed
  qed
qed

theorem login_required_redirects_witness:
  "session_user_id (board None) = None
   \<and> view (env0 None None True) (UpdateColumn 7 1) request0 (board None)
       = (flash ''Please login first!'' ''warning'' (board None), Redirect ''/login'')
   \<and> view (env0 None None True) Workflow request0 (board None)
       = (flash ''Please login first!'' ''warning'' (board None), Redirect ''/login'')
   \<and> session_user_id (board (Some 1)) = Some 1 \<and> get_task (board (Some 1)) 7 = Some task7
   \<and> t_user_id task7 \<noteq> 1
   \<and> view (env0 None None True) (UpdateColumn 7 1) request0 (board (Some 1))
       = (board (Some 1), Json False (Some ''Unauthorized'') 403)
   \<and> view (env0 None None True) (UpdateStatus 7 ''done'') request0 (board (Some 1))
       = (board (Some 1), Json False (Some ''Unauthorized'') 403)
   \<and> get_task (board (Some 1)) 8 = Some task8 \<and> t_user_id task8 = 1
   \<and> snd (view (env0 None None True) (UpdateColumn 8 2) request0 (board (Some 1)))
       \<noteq> Json False (Some ''Unauthorized'') 403
   \<and> snd (view (env0 None None True) (UpdateStatus 8 ''done'') request0 (board (Some 1)))
       \<noteq> Json False (Some ''Unauthorized'') 403
   \<and> get_task (board (Some 1)) 9 = None
   \<and> snd (view (env0 None None True) (UpdateStatus 9 ''done'') request0 (board (Some 1)))
       \<noteq> Json False (Some ''Unauthorized'') 403"
proof -
  have n: "session_user_id (board None) = None"
    by (simp add: board_def)
  have s: "session_user_id (board (Some 1)) = Some 1 \<and> get_task (board (Some 1)) 7 = Some task7
       \<and> t_user_id task7 \<noteq> 1"
    by (simp add: get_task_board) (simp add: board_def task7_def)
  have own: "get_task (board (Some 1)) 8 = Some task8 \<and> t_user_id task8 = 1"
    by (simp add: get_task_board) (simp add: task8_def)
  have none: "get_task (board (Some 1)) 9 = None"
    by (simp add: get_task_def board_def task7_def task8_def)
  have no8: "\<not> (\<exists>u x. session_user_id (board (Some 1)) = Some u
       \<and> get_task (board (Some 1)) 8 = Some x \<and> t_user_id x \<noteq> u)"
    using s own by simp
  have no9: "\<not> (\<exists>u x. session_user_id (board (Some 1)) = Some u
       \<and> get_task (board (Some 1)) 9 = Some x \<and> t_user_id x \<noteq> u)"
    using none by simp
  note anon = login_required_redirects
    [where st = "board None" and env = "env0 None None True" and req = request0
       and a = 1 and i = 7 and t = task7 and c = 1 and s = "''done''"]
  note other = login_required_redirects
    [where st = "board (Some 1)" and env = "env0 None None True" and r = Workflow
       and req = request0 and a = 1 and i = 7 and t = task7 and c = 1 and s = "''done''"]
  note owner = login_required_redirects
    [where st = "board (Some 1)" and env = "env0 None None True" and r = Workflow
       and req = request0 and a = 1 and i = 8 and t = task8 and c = 2 and s = "''done''"]
  note missing = login_required_redirects
    [where st = "board (Some 1)" and env = "env0 None None True" and r = Workflow
       and req = request0 and a = 1 and i = 9 and t = task8 and c = 2 and s = "''done''"]
  have r1: "view (env0 None None True) (UpdateColumn 7 1) request0 (board None)
       = (flash ''Please login first!'' ''warning'' (board None), Redirect ''/login'')"
    using anon [where r = "UpdateColumn 7 1"] n by blast
  have r2: "view (env0 None None True) Workflow request0 (board None)
       = (flash ''Please login first!'' ''warning'' (board None), Redirect ''/login'')"
    using anon [where r = Workflow] n by blast
  have r3: "view (env0 None None True) (UpdateColumn 7 1) request0 (board (Some 1))
       = (board (Some 1), Json False (Some ''Unauthorized'') 403)"
    and r4: "view (env0 None None True) (UpdateStatus 7 ''done'') request0 (board (Some 1))
       = (board (Some 1), Json False (Some ''Unauthorized'') 403)"
    using other s by blast+
  have r5: "snd (view (env0 None None True) (UpdateColumn 8 2) request0 (board (Some 1)))
       \<noteq> Json False (Some ''Unauthorized'') 403"
    and r6: "snd (view (env0 None None True) (UpdateStatus 8 ''done'') request0 (board (Some 1)))
       \<noteq> Json False (Some ''Unauthorized'') 403"
    using owner no8 by blast+
  have r7: "snd (view (env0 None None True) (UpdateStatus 9 ''done'') request0 (board (Some 1)))
       \<noteq> Json False (Some ''Unauthorized'') 403"
    using missing no9 by blast
  show ?thesis
    using n s own none r1 r2 r3 r4 r5 r6 r7 by blast
qed

section \<open>The board view\<close>

lemma fst_app_context:
  "fst (app_context f st) = (fst (f (st\<lparr>db_session := []\<rparr>)))\<lparr>db_session := []\<rparr>"
  by (simp add: app_context_def split: prod.splits)

lemma snd_app_context: "snd (app_context f st) = snd (f (st\<lparr>db_session := []\<rparr>))"
  by (simp add: app_context_def split: prod.splits)

text \<open>
  C4.  Ann is logged in and owns \<open>To Do\<close>, \<open>In Progress\<close>, \<open>Done\<close> and \<open>My Stage\<close>;
  \<open>Completed\<close> and \<open>Pending\<close> are missing.  The board view adds a column object for
  each of the two to the database session and never commits: the column table is the
  same after the view and after the request, and the page shows the four columns that
  were queried before the additions.
\<close>

theorem workflow_defaults_not_kept:
  "map c_name (user_columns (board (Some 1)) 1) = [''To Do'', ''In Progress'', ''Done'', ''My Stage'']
   \<and> db_session (fst (workflow request0 (board (Some 1))))
       = [PColumn \<lparr>c_id = None, c_name = ''Completed'', c_position = 0, c_user_id = 1\<rparr>,
          PColumn \<lparr>c_id = None, c_name = ''Pending'', c_position = 0, c_user_id = 1\<rparr>]
   \<and> db_columns (fst (workflow request0 (board (Some 1)))) = db_columns (board (Some 1))
   \<and> shown_names (snd (workflow request0 (board (Some 1))))
       = [''To Do'', ''In Progress'', ''Done'', ''My Stage'']
   \<and> fst (handle (env0 None None True) Workflow request0 (board (Some 1))) = board (Some 1)
   \<and> shown_names (snd (handle (env0 None None True) Workflow request0 (board (Some 1))))
       = [''To Do'', ''In Progress'', ''Done'', ''My Stage'']"
proof -
  have cols: "user_columns (board (Some 1)) 1 = take 4 board_columns"
    by (simp add: user_columns_def board_def board_columns_def)
  have names: "map c_name (user_columns (board (Some 1)) 1)
      = [''To Do'', ''In Progress'', ''Done'', ''My Stage'']"
    by (simp add: cols board_columns_def)
  have names_set: "c_name ` set (user_columns (board (Some 1)) 1)
      = {''To Do'', ''In Progress'', ''Done'', ''My Stage''}"
    by (simp add: cols board_columns_def)
  have ens: "ensure_default_columns 1 (board (Some 1)) = board (Some 1)"
    by (rule ensure_keeps) (simp add: cols board_columns_def)
  have usr: "get_user (board (Some 1)) 1 = Some ann"
    by (simp add: get_user_def board_def ann_def)
  have sid: "session_user_id (board (Some 1)) = Some 1"
    by (simp add: board_def)
  have w: "fst (workflow request0 (board (Some 1))) =
     (board (Some 1))\<lparr>db_session :=
         [PColumn \<lparr>c_id = None, c_name = ''Completed'', c_position = 0, c_user_id = 1\<rparr>,
          PColumn \<lparr>c_id = None, c_name = ''Pending'', c_position = 0, c_user_id = 1\<rparr>]\<rparr>"
    by (simp add: workflow_def login_required_def with_user_def sid usr ens Let_def
        default_names_def session_add_def names_set)
      (simp add: board_def)
  have sh: "shown_names (snd (workflow request0 (board (Some 1))))
       = [''To Do'', ''In Progress'', ''Done'', ''My Stage'']"
    using names
    by (simp add: workflow_def login_required_def with_user_def sid usr ens Let_def comp_def)
  have fresh: "(board (Some 1))\<lparr>db_session := []\<rparr> = board (Some 1)"
    by (simp add: board_def)
  have h1: "fst (handle (env0 None None True) Workflow request0 (board (Some 1))) = board (Some 1)"
    by (simp add: handle_def fst_app_context fresh w)
  have h2: "snd (handle (env0 None None True) Workflow request0 (board (Some 1)))
      = snd (workflow request0 (board (Some 1)))"
    by (simp add: handle_def snd_app_context fresh)
  show ?thesis
    unfolding h1 h2 sh w names by simp
qed

section \<open>The reminder pass\<close>

lemma remind_step_closed:
  assumes "db_session st = []"
  shows "remind_step env now (st, log) t =
           (st\<lparr>db_tasks := disarm now (db_tasks st) t\<rparr>, log @ events env (db_users st) now t)"
proof (cases "t_due_date t")
  case None
  then show ?thesis
    by (simp add: remind_step_def disarm_def events_def in_window_def)
next
  case (Some due)
  then have w: "in_window now t \<longleftrightarrow> 0 < due - now \<and> due - now < 300000000"
    by (simp add: in_window_def)
  from Some assms show ?thesis
    by (simp add: remind_step_def disarm_def events_def commit_def update_task_def w)
qed

lemma fold_closed:
  "db_session st = [] \<Longrightarrow>
   foldl (remind_step env now) (st, log) xs =
     (st\<lparr>db_tasks := foldl (disarm now) (db_tasks st) xs\<rparr>,
      log @ concat (map (events env (db_users st) now) xs))"
proof (induction xs arbitrary: st log)
  case Nil
  then show ?case by simp
next
  case (Cons x xs)
  then show ?case by (simp add: remind_step_closed)
qed

lemma reminder_cycle_closed:
  "reminder_cycle env now st =
     (st\<lparr>db_tasks := foldl (disarm now) (db_tasks st) (filter armed (db_tasks st)),
         db_session := []\<rparr>,
      concat (map (events env (db_users st) now) (filter armed (db_tasks st))))"
proof -
  have a: "(\<lambda>t. t_reminder_set t \<and> \<not> t_complete t) = armed"
    by (simp add: armed_def fun_eq_iff)
  show ?thesis
    by (simp add: reminder_cycle_def app_context_def a fold_closed)
qed

lemma ids_disarm: "map t_id (disarm now ts t) = map t_id ts"
  by (simp add: disarm_def map_t_id_put_task [of _ t])

lemma ids_fold_disarm: "map t_id (foldl (disarm now) ts xs) = map t_id ts"
  by (induction xs arbitrary: ts) (simp_all add: ids_disarm)

lemma find_None_key: "find (\<lambda>x. t_id x = k) ts = None \<longleftrightarrow> k \<notin> set (map t_id ts)"
  by (induction ts) auto

lemma row_disarm_other:
  "t_id x \<noteq> k \<Longrightarrow> find (\<lambda>y. t_id y = k) (disarm now ts x) = find (\<lambda>y. t_id y = k) ts"
  by (simp add: disarm_def find_put_task)

lemma row_disarm_same:
  "in_window now t \<Longrightarrow>
   find (\<lambda>y. t_id y = t_id t) (disarm now ts t)
     = map_option (\<lambda>_. t\<lparr>t_reminder_set := False\<rparr>) (find (\<lambda>y. t_id y = t_id t) ts)"
  by (simp add: disarm_def find_put_task)

lemma row_after_disarm:
  assumes "\<forall>x\<in>set xs. t_id x = k \<longrightarrow> x = t" "t \<in> set xs" "in_window now t" "t_id t = k"
    and "k \<in> set (map t_id ts)"
  shows "find (\<lambda>x. t_id x = k) (foldl (disarm now) ts xs) = Some (t\<lparr>t_reminder_set := False\<rparr>)"
  using assms(1,2)
proof (induction xs rule: rev_induct)
  case Nil
  then show ?case by simp
next
  case (snoc x xs)
  show ?case
  proof (cases "t_id x = k")
    case True
    with snoc.prems have x: "x = t" by simp
    have "find (\<lambda>x. t_id x = k) (foldl (disarm now) ts xs) \<noteq> None"
      using assms(5) by (simp add: find_None_key ids_fold_disarm)
    then obtain y where y: "find (\<lambda>x. t_id x = k) (foldl (disarm now) ts xs) = Some y"
      by blast
    show ?thesis
      using row_disarm_same [OF assms(3), of "foldl (disarm now) ts xs"] y assms(4)
      by (simp add: x)
  next
    case False
    with snoc.prems assms(4) have m: "t \<in> set xs" by auto
    from snoc.prems have "\<forall>x\<in>set xs. t_id x = k \<longrightarrow> x = t" by simp
    from this m have "find (\<lambda>x. t_id x = k) (foldl (disarm now) ts xs)
        = Some (t\<lparr>t_reminder_set := False\<rparr>)"
      by (rule snoc.IH)
    with False show ?thesis
      by (simp add: row_disarm_other)
  qed
qed


lemma attempts_other:
  "\<forall>x\<in>set xs. t_id x \<noteq> k \<Longrightarrow> attempts_for k (concat (map (events env us now) xs)) = []"
proof (induction xs)
  case Nil
  then show ?case by (simp add: attempts_for_def)
next
  case (Cons x xs)
  then have k: "t_id x \<noteq> k" by simp
  have "attempts_for k (events env us now x) = []"
    using k by (cases "t_due_date x") (simp_all add: attempts_for_def events_def)
  with Cons show ?case by (simp add: attempts_for_def)
qed

lemma attempts_append: "attempts_for k (xs @ ys) = attempts_for k xs @ attempts_for k ys"
  by (simp add: attempts_for_def)

lemma attempts_one:
  "distinct xs \<Longrightarrow> (\<forall>x\<in>set xs. t_id x = k \<longrightarrow> x = t) \<Longrightarrow> t \<in> set xs \<Longrightarrow>
   attempts_for k (concat (map (events env us now) xs)) = attempts_for k (events env us now t)"
proof (induction xs)
  case Nil
  then show ?case by simp
next
  case (Cons x xs)
  note d = Cons.prems(1) and u = Cons.prems(2) and m = Cons.prems(3)
  from u have ux: "t_id x = k \<longrightarrow> x = t"
    and u': "\<forall>y\<in>set xs. t_id y = k \<longrightarrow> y = t"
    by simp_all
  have split: "attempts_for k (concat (map (events env us now) (x # xs)))
      = attempts_for k (events env us now x)
          @ attempts_for k (concat (map (events env us now) xs))"
    by (simp add: attempts_append)
  show ?case
  proof (cases "x = t")
    case True
    from d True have notin: "t \<notin> set xs" by simp
    have "\<forall>y\<in>set xs. t_id y \<noteq> k"
    proof (intro ballI notI)
      fix y assume y: "y \<in> set xs" and "t_id y = k"
      with u' have "y = t" by blast
      with y notin show False by blast
    qed
    then have "attempts_for k (concat (map (events env us now) xs)) = []"
      by (rule attempts_other)
    with True split show ?thesis by simp
  next
    case False
    from ux False have k: "t_id x \<noteq> k" by blast
    from m False have t: "t \<in> set xs" by simp
    from d have d': "distinct xs" by simp
    from k have "attempts_for k (events env us now x) = []"
      by (cases "t_due_date x") (simp_all add: attempts_for_def events_def)
    moreover have "attempts_for k (concat (map (events env us now) xs))
        = attempts_for k (events env us now t)"
      using d' u' t by (rule Cons.IH)
    ultimately show ?thesis using split by simp
  qed
qed

lemma attempts_events:
  assumes "t_due_date t = Some due" "in_window now t"
  shows "attempts_for (t_id t) (events env us now t)
           = map (Pair (t_id t)) (filter is_attempt (send_reminder env us t due))"
  using assms by (simp add: attempts_for_def events_def filter_map comp_def)

lemma same_key_same_row:
  assumes "distinct (map t_id ts)" "x \<in> set ts" "y \<in> set ts" "t_id x = t_id y"
  shows "x = y"
proof -
  from assms(1) have "inj_on t_id (set ts)"
    by (simp add: distinct_map)
  with assms(2-4) show ?thesis
    by (rule_tac inj_onD)
qed

lemma send_reminder_attempts:
  "length (filter is_attempt (send_reminder env us t due)) =
     (if truthy (mail_username env) \<and> truthy (mail_password env)
         \<and> find (\<lambda>u. u_id u = Some (t_user_id t)) us \<noteq> None then 1 else 0)"
  by (cases "find (\<lambda>u. u_id u = Some (t_user_id t)) us")
    (simp_all add: send_reminder_def Let_def)

lemma reminder_pass_row:
  assumes "distinct (map t_id (db_tasks st))" "get_task st i = Some t"
    and "t_reminder_set t" "\<not> t_complete t" "t_due_date t = Some due"
    and "0 < due - now" "due - now < 300000000"
  shows "get_task (fst (reminder_cycle env now st)) i = Some (t\<lparr>t_reminder_set := False\<rparr>)"
    and "attempts_for (Some i) (snd (reminder_cycle env now st))
           = map (Pair (Some i)) (filter is_attempt (send_reminder env (db_users st) t due))"
    and "distinct (map t_id (db_tasks (fst (reminder_cycle env now st))))"
proof -
  let ?sel = "filter armed (db_tasks st)"
  from assms(2) have key: "t_id t = Some i" and mem: "t \<in> set (db_tasks st)"
    unfolding get_task_def by (auto dest: find_key)
  from assms(3,4) have "armed t" by (simp add: armed_def)
  with mem have sel: "t \<in> set ?sel" by simp
  have win: "in_window now t"
    using assms(5-7) by (simp add: in_window_def)
  have uniq: "\<forall>x\<in>set ?sel. t_id x = Some i \<longrightarrow> x = t"
  proof (intro ballI impI)
    fix x assume "x \<in> set ?sel" and "t_id x = Some i"
    then have "x \<in> set (db_tasks st)" and "t_id x = t_id t"
      using key by simp_all
    with assms(1) mem show "x = t"
      by (intro same_key_same_row [of "db_tasks st"])
  qed
  have ex: "Some i \<in> set (map t_id (db_tasks st))"
    using mem key by force
  show "get_task (fst (reminder_cycle env now st)) i = Some (t\<lparr>t_reminder_set := False\<rparr>)"
    using row_after_disarm [OF uniq sel win key ex]
    by (simp add: reminder_cycle_closed get_task_def)
  have d: "distinct ?sel"
    using assms(1) by (simp add: distinct_map)
  show "attempts_for (Some i) (snd (reminder_cycle env now st))
           = map (Pair (Some i)) (filter is_attempt (send_reminder env (db_users st) t due))"
    using attempts_one [OF d uniq sel, of env "db_users st" now]
      attempts_events [OF assms(5) win, of env "db_users st"]
    by (simp add: reminder_cycle_closed key)
  show "distinct (map t_id (db_tasks (fst (reminder_cycle env now st))))"
    using assms(1) by (simp add: reminder_cycle_closed ids_fold_disarm)
qed

lemma reminder_pass_skips_disarmed:
  assumes "distinct (map t_id (db_tasks st))" "get_task st i = Some t" "\<not> t_reminder_set t"
  shows "attempts_for (Some i) (snd (reminder_cycle env now st)) = []"
proof -
  from assms(2) have key: "t_id t = Some i" and mem: "t \<in> set (db_tasks st)"
    unfolding get_task_def by (auto dest: find_key)
  have "\<forall>x\<in>set (filter armed (db_tasks st)). t_id x \<noteq> Some i"
  proof (intro ballI notI)
    fix x assume x: "x \<in> set (filter armed (db_tasks st))" and "t_id x = Some i"
    then have "x \<in> set (db_tasks st)" and "t_id x = t_id t"
      using key by simp_all
    with assms(1) mem have "x = t"
      by (intro same_key_same_row [of "db_tasks st"])
    with x assms(3) show False by (simp add: armed_def)
  qed
  then show ?thesis
    by (simp add: reminder_cycle_closed attempts_other)
qed

section \<open>One reminder per armed task\<close>

lemma no_credentials_no_log:
  assumes "\<not> (truthy (mail_username env) \<and> truthy (mail_password env))"
  shows "snd (reminder_cycle env now st) = []"
proof -
  have "send_reminder env us t due = []" for us t due
    unfolding send_reminder_def using assms by (rule if_not_P)
  then have "events env us now t = []" for us t
    by (cases "t_due_date t") (simp_all add: events_def)
  then show ?thesis
    by (simp add: reminder_cycle_closed)
qed

lemma board_task7:
  "distinct (map t_id (db_tasks (board who)))" "t_reminder_set task7" "\<not> t_complete task7"
  "t_due_date task7 = Some due7" "0 < due7 - (due7 - 200000000)"
  "due7 - (due7 - 200000000) < 300000000"
  by (simp_all add: board_def task7_def task8_def)

text \<open>
  C5, as stated, fails.  Task 7 is armed, not complete and due in 200 seconds; no mail
  credentials are configured.  The pass sends nothing, and disarms the task.
\<close>

theorem reminder_without_credentials_sends_nothing:
  "get_task (board None) 7 = Some task7
   \<and> t_reminder_set task7 \<and> \<not> t_complete task7 \<and> t_due_date task7 = Some due7
   \<and> 0 < due7 - (due7 - 200000000) \<and> due7 - (due7 - 200000000) < 300000000
   \<and> snd (reminder_cycle (env0 None None True) (due7 - 200000000) (board None)) = []
   \<and> get_task (fst (reminder_cycle (env0 None None True) (due7 - 200000000) (board None))) 7
       = Some (task7\<lparr>t_reminder_set := False\<rparr>)"
proof -
  have "\<not> (truthy (mail_username (env0 None None True)) \<and> truthy (mail_password (env0 None None True)))"
    by (simp add: env0_def truthy_def)
  then have "snd (reminder_cycle (env0 None None True) (due7 - 200000000) (board None)) = []"
    by (rule no_credentials_no_log)
  then show ?thesis
    using reminder_pass_row(1) [OF board_task7(1) get_task_board(1) board_task7(2-6)]
    by (simp add: get_task_board board_task7)
qed

text \<open>
  C5, amended.  Let a task be armed, not complete and due strictly between 0 and 300
  seconds after the clock reading of a pass (its key being unique in the table, as a
  primary key is).  The pass disarms the task, whether or not a message was handed to
  the mail transport and whether or not the transport delivered it.  It calls
  \<open>mail.send\<close> for the task exactly once when both mail credentials are configured and
  the row of the owning user exists, and not at all otherwise.  The next pass, whatever
  its clock reading and configuration, makes no call for the task, so the two first
  passes of the worker together make the calls of the first.
\<close>

theorem reminder_cycle_one_attempt:
  assumes "distinct (map t_id (db_tasks st))" "get_task st i = Some t"
    and "t_reminder_set t" "\<not> t_complete t" "t_due_date t = Some due"
    and "0 < due - now" "due - now < 300000000"
  shows "get_task (fst (reminder_cycle env now st)) i = Some (t\<lparr>t_reminder_set := False\<rparr>)
     \<and> length (attempts_for (Some i) (snd (reminder_cycle env now st)))
         = (if truthy (mail_username env) \<and> truthy (mail_password env)
               \<and> get_user st (t_user_id t) \<noteq> None then 1 else 0)
     \<and> attempts_for (Some i) (snd (reminder_cycle env' now' (fst (reminder_cycle env now st)))) = []
     \<and> attempts_for (Some i) (snd (reminder_worker env [now, now'] st))
         = attempts_for (Some i) (snd (reminder_cycle env now st))"
proof -
  note row = reminder_pass_row [OF assms, of env]
  have next_pass: "attempts_for (Some i) (snd (reminder_cycle e n (fst (reminder_cycle env now st)))) = []"
    for e n
    using row(3) row(1) by (rule reminder_pass_skips_disarmed) simp
  have count: "length (attempts_for (Some i) (snd (reminder_cycle env now st)))
         = (if truthy (mail_username env) \<and> truthy (mail_password env)
               \<and> get_user st (t_user_id t) \<noteq> None then 1 else 0)"
    unfolding row(2) by (simp add: send_reminder_attempts get_user_def)
  have worker: "snd (reminder_worker env [now, now'] st)
      = snd (reminder_cycle env now st)
          @ snd (reminder_cycle env now' (fst (reminder_cycle env now st)))"
    by (simp split: prod.splits)
  have both: "attempts_for (Some i) (snd (reminder_worker env [now, now'] st))
         = attempts_for (Some i) (snd (reminder_cycle env now st))"
    unfolding worker attempts_append next_pass by simp
  show ?thesis
    using row(1) count next_pass both by blast
qed

theorem reminder_cycle_one_attempt_witness:
  "distinct (map t_id (db_tasks (board None))) \<and> get_task (board None) 7 = Some task7
   \<and> t_reminder_set task7 \<and> \<not> t_complete task7 \<and> t_due_date task7 = Some due7
   \<and> 0 < due7 - (due7 - 200000000) \<and> due7 - (due7 - 200000000) < 300000000
   \<and> send_reminder (env0 (Some ''me@x.com'') (Some ''pw'') False) [ann, bob] task7 due7
       = [SendError \<lparr>msg_subject = ''Task Reminder'', msg_sender = ''me@x.com'',
                       msg_recipients = [''bob@x.com''],
                       msg_body = ''Reminder: Pay rent'' @ [CHR 0x0A] @ ''Due at 2025-12-01 10:00''
                                    @ [CHR 0x0A, CHR 0x0A] @ ''by transfer''\<rparr>]
   \<and> get_task (fst (reminder_cycle (env0 (Some ''me@x.com'') (Some ''pw'') False)
                      (due7 - 200000000) (board None))) 7
       = Some (task7\<lparr>t_reminder_set := False\<rparr>)
   \<and> length (attempts_for (Some 7)
        (snd (reminder_cycle (env0 (Some ''me@x.com'') (Some ''pw'') False)
               (due7 - 200000000) (board None)))) = 1
   \<and> length (attempts_for (Some 7)
        (snd (reminder_worker (env0 (Some ''me@x.com'') (Some ''pw'') False)
               [due7 - 200000000, due7 - 140000000] (board None)))) = 1"
proof -
  let ?e = "env0 (Some ''me@x.com'') (Some ''pw'') False"
  have c: "truthy (mail_username ?e) \<and> truthy (mail_password ?e)
      \<and> get_user (board None) (t_user_id task7) \<noteq> None"
    by (simp add: env0_def truthy_def get_user_def board_def task7_def ann_def bob_def)
  have f: "send_reminder ?e [ann, bob] task7 due7
       = [SendError \<lparr>msg_subject = ''Task Reminder'', msg_sender = ''me@x.com'',
                       msg_recipients = [''bob@x.com''],
                       msg_body = ''Reminder: Pay rent'' @ [CHR 0x0A] @ ''Due at 2025-12-01 10:00''
                                    @ [CHR 0x0A, CHR 0x0A] @ ''by transfer''\<rparr>]"
    by (simp add: send_reminder_def env0_def truthy_def task7_def ann_def bob_def py_or_def
        reminder_body_def)
  show ?thesis
    using reminder_cycle_one_attempt
      [where env = ?e and env' = ?e and now' = "due7 - 140000000",
        OF board_task7(1) get_task_board(1) board_task7(2-6)] c f
    by (simp add: get_task_board board_task7)
qed

section \<open>Reminders without mail credentials\<close>

text \<open>
  C9.  When \<open>MAIL_USERNAME\<close> or \<open>MAIL_PASSWORD\<close> is not configured, a pass makes no
  call of \<open>mail.send\<close> at all, and still disarms every armed, incomplete task it sees
  with a due date strictly between 0 and 300 seconds away.  The task being disarmed, no
  later pass sends anything for it either, whatever is configured by then: the
  reminder is lost.
\<close>

theorem reminder_lost_without_credentials:
  assumes "\<not> (truthy (mail_username env) \<and> truthy (mail_password env))"
    and "distinct (map t_id (db_tasks st))" "get_task st i = Some t"
    and "t_reminder_set t" "\<not> t_complete t" "t_due_date t = Some due"
    and "0 < due - now" "due - now < 300000000"
  shows "snd (reminder_cycle env now st) = []
     \<and> get_task (fst (reminder_cycle env now st)) i = Some (t\<lparr>t_reminder_set := False\<rparr>)
     \<and> attempts_for (Some i) (snd (reminder_cycle env' now' (fst (reminder_cycle env now st)))) = []"
proof -
  note row = reminder_pass_row [OF assms(2-8), of env]
  have "attempts_for (Some i) (snd (reminder_cycle env' now' (fst (reminder_cycle env now st)))) = []"
    using row(3) row(1) by (rule reminder_pass_skips_disarmed) simp
  with no_credentials_no_log [OF assms(1)] row(1) show ?thesis
    by blast
qed

theorem reminder_lost_without_credentials_witness:
  "\<not> (truthy (mail_username (env0 (Some ''me@x.com'') None True))
        \<and> truthy (mail_password (env0 (Some ''me@x.com'') None True)))
   \<and> distinct (map t_id (db_tasks (board None))) \<and> get_task (board None) 7 = Some task7
   \<and> t_reminder_set task7 \<and> \<not> t_complete task7 \<and> t_due_date task7 = Some due7
   \<and> 0 < due7 - (due7 - 200000000) \<and> due7 - (due7 - 200000000) < 300000000
   \<and> snd (reminder_cycle (env0 (Some ''me@x.com'') None True) (due7 - 200000000) (board None)) = []
   \<and> get_task (fst (reminder_cycle (env0 (Some ''me@x.com'') None True)
                      (due7 - 200000000) (board None))) 7
       = Some (task7\<lparr>t_reminder_set := False\<rparr>)
   \<and> attempts_for (Some 7)
        (snd (reminder_cycle (env0 (Some ''me@x.com'') (Some ''pw'') True) (due7 - 140000000)
               (fst (reminder_cycle (env0 (Some ''me@x.com'') None True)
                      (due7 - 200000000) (board None))))) = []"
proof -
  have c: "\<not> (truthy (mail_username (env0 (Some ''me@x.com'') None True))
        \<and> truthy (mail_password (env0 (Some ''me@x.com'') None True)))"
    by (simp add: env0_def truthy_def)
  show ?thesis
    using reminder_lost_without_credentials
      [where env' = "env0 (Some ''me@x.com'') (Some ''pw'') True" and now' = "due7 - 140000000",
        OF c board_task7(1) get_task_board(1) board_task7(2-6)] c
    by (simp add: get_task_board board_task7)
qed

end
